theory Spec2Isabelle
  imports Main
begin

section \<open>The Winforms proactor event loop\<close>

text \<open>
  A shallow embedding of \<^verbatim>\<open>WinformsProactorEventLoop\<close>
  (\<^verbatim>\<open>winforms/src/toga_winforms/libs/proactor.py\<close>). The loop object, the
  interpreter state it touches (\<^verbatim>\<open>sys\<close>, \<^verbatim>\<open>asyncio.events\<close>, the standard
  error stream) and the WinForms host (delayed tasks, the \<^verbatim>\<open>ApplicationExit\<close>
  event) are one explicit state record. Every method takes the state and returns an
  outcome: it returned normally, or it raised, in both cases with the state it left.
\<close>

subsection \<open>Python values\<close>

text \<open>Exceptions. The last four derive from \<^verbatim>\<open>BaseException\<close> only.\<close>

datatype exn =
    RuntimeError string
  | AssertionError
  | AttributeError string
  | TypeError string
  | OtherException string
  | KeyboardInterrupt
  | SystemExit
  | GeneratorExit
  | CancelledError

datatype exn_class = BaseException_class | Exception_class

fun isinstance :: "exn \<Rightarrow> exn_class \<Rightarrow> bool" where
  "isinstance e BaseException_class = True"
| "isinstance KeyboardInterrupt Exception_class = False"
| "isinstance SystemExit Exception_class = False"
| "isinstance GeneratorExit Exception_class = False"
| "isinstance CancelledError Exception_class = False"
| "isinstance e Exception_class = True"

text \<open>
  An instance attribute that \<^verbatim>\<open>__init__\<close> does not create: reading it before its
  first assignment raises \<^verbatim>\<open>AttributeError\<close>.
\<close>

datatype 'a attr = Missing | Present 'a

datatype pyobj = PyInt int | PyStr string

text \<open>
  Callables are named; what a user callable does when it is called is a parameter of
  the methods that call one.
\<close>

datatype callable = LoopSelfReading | UserCallable nat

datatype loop_ref = Self | OtherLoop nat

datatype hook = NoHook | FirstiterHook loop_ref | FinalizerHook loop_ref | ForeignHook nat

text \<open>\<^verbatim>\<open>Action[Task](self.tick)\<close>, and the weak subscription to the exit event.\<close>

datatype action = TickAction

datatype handler = WeakrefCallable loop_ref

record app =
  is_exiting :: bool
  app_context :: nat

subsection \<open>State\<close>

record state =
  \<comment> \<open>fields of \<^verbatim>\<open>asyncio.BaseEventLoop\<close>\<close>
  closed :: bool
  stopping :: bool
  thread_id :: "nat option"
  debug :: bool
  ready :: "callable list"
  coroutine_origin_tracking_enabled :: bool
  \<comment> \<open>attributes this class adds\<close>
  app :: "app attr"
  old_agen_hooks :: "(hook \<times> hook) attr"
  task :: "action attr"
  inner_loop :: "(callable \<times> pyobj list) option attr"
  \<comment> \<open>the interpreter: \<^verbatim>\<open>events._get_running_loop()\<close>, \<^verbatim>\<open>sys.get_asyncgen_hooks()\<close>,
      \<^verbatim>\<open>threading.get_ident()\<close>, tracebacks printed on standard error\<close>
  running_loop :: "loop_ref option"
  asyncgen_hooks :: "hook \<times> hook"
  current_thread :: nat
  stderr :: "exn list"
  \<comment> \<open>the host: \<^verbatim>\<open>Task.Delay(ms).ContinueWith(action)\<close> not yet fired, and the
      subscribers of \<^verbatim>\<open>WinForms.Application.ApplicationExit\<close>\<close>
  delayed :: "(nat \<times> action) list"
  application_exit :: "handler list"

datatype outcome = Normal state | Raise exn state

fun and_then :: "outcome \<Rightarrow> (state \<Rightarrow> outcome) \<Rightarrow> outcome" where
  "and_then (Normal s) f = f s"
| "and_then (Raise e s) f = Raise e s"

fun raised :: "outcome \<Rightarrow> exn option" where
  "raised (Normal s) = None"
| "raised (Raise e s) = Some e"

fun final :: "outcome \<Rightarrow> state" where
  "final (Normal s) = s"
| "final (Raise e s) = s"

text \<open>\<^verbatim>\<open>try: ... except cls: handler\<close>\<close>

fun try_except :: "outcome \<Rightarrow> exn_class \<Rightarrow> (exn \<Rightarrow> state \<Rightarrow> outcome) \<Rightarrow> outcome" where
  "try_except (Normal s) cls h = Normal s"
| "try_except (Raise e s) cls h = (if isinstance e cls then h e s else Raise e s)"

subsection \<open>Inherited from the asyncio library\<close>

text \<open>
  The methods of \<^verbatim>\<open>asyncio.BaseEventLoop\<close> that the class calls are part of the
  Python standard library, not of this repository. They are modelled after their
  documented behaviour: \<^verbatim>\<open>_check_closed\<close> raises on a closed loop,
  \<^verbatim>\<open>is_running\<close> tests the thread id, \<^verbatim>\<open>call_soon\<close> checks that the loop is open
  (and, in debug mode, that the caller is on the loop's thread) and appends a handle to
  the ready queue, \<^verbatim>\<open>stop\<close> sets the stopping flag. Of
  \<^verbatim>\<open>_set_coroutine_origin_tracking\<close> only the loop's flag is kept.
\<close>

definition closed_error :: exn where
  "closed_error = RuntimeError ''Event loop is closed''"

definition thread_error :: exn where
  "thread_error = RuntimeError
     ''Non-thread-safe operation invoked on an event loop other than the current one''"

definition check_closed :: "state \<Rightarrow> outcome" where
  "check_closed s = (if closed s then Raise closed_error s else Normal s)"

definition is_running :: "state \<Rightarrow> bool" where
  "is_running s = (thread_id s \<noteq> None)"

definition check_thread :: "state \<Rightarrow> outcome" where
  "check_thread s =
     (case thread_id s of
        None \<Rightarrow> Normal s
      | Some t \<Rightarrow> if current_thread s \<noteq> t then Raise thread_error s else Normal s)"

definition call_soon :: "callable \<Rightarrow> state \<Rightarrow> outcome" where
  "call_soon cb s =
     and_then (check_closed s) (\<lambda>s.
     and_then (if debug s then check_thread s else Normal s) (\<lambda>s.
     Normal (s\<lparr>ready := ready s @ [cb]\<rparr>)))"

definition stop :: "state \<Rightarrow> outcome" where
  "stop s = Normal (s\<lparr>stopping := True\<rparr>)"

definition set_coroutine_origin_tracking :: "bool \<Rightarrow> state \<Rightarrow> state" where
  "set_coroutine_origin_tracking enabled s = s\<lparr>coroutine_origin_tracking_enabled := enabled\<rparr>"

definition print_exc :: "exn \<Rightarrow> state \<Rightarrow> outcome" where
  "print_exc e s = Normal (s\<lparr>stderr := stderr s @ [e]\<rparr>)"

subsection \<open>The methods of the class\<close>

text \<open>
  \<^verbatim>\<open>enqueue_tick\<close>: remember the action and ask the host to run it in 5 ms.
\<close>

definition enqueue_tick :: "state \<Rightarrow> state" where
  "enqueue_tick s = s\<lparr>task := Present TickAction, delayed := delayed s @ [(5, TickAction)]\<rparr>"

text \<open>
  \<^verbatim>\<open>start_inner_loop\<close>: \<^verbatim>\<open>assert self._inner_loop is None\<close>, then store the pair.
\<close>

definition start_inner_loop :: "callable \<Rightarrow> pyobj list \<Rightarrow> state \<Rightarrow> outcome" where
  "start_inner_loop callback args s =
     (case inner_loop s of
        Missing \<Rightarrow> Raise (AttributeError ''_inner_loop'') s
      | Present (Some r) \<Rightarrow> Raise AssertionError s
      | Present None \<Rightarrow> Normal (s\<lparr>inner_loop := Present (Some (callback, args))\<rparr>))"

text \<open>
  \<^verbatim>\<open>winforms_application_exit\<close>, on an interpreter before 3.13 (the branch whose
  statements the source spells out). Its two arguments, the sender and the event, are
  not used by the body.
\<close>

definition winforms_application_exit :: "state \<Rightarrow> outcome" where
  "winforms_application_exit s =
     (let s = s\<lparr>stopping := False\<rparr>;
          s = s\<lparr>thread_id := None\<rparr>;
          s = s\<lparr>running_loop := None\<rparr>;
          s = set_coroutine_origin_tracking False s
      in case old_agen_hooks s of
           Missing \<Rightarrow> Raise (AttributeError ''_old_agen_hooks'') s
         | Present h \<Rightarrow> Normal (s\<lparr>asyncgen_hooks := h\<rparr>))"

text \<open>
  \<^verbatim>\<open>run_once_recurring\<close>. The scheduler pass \<^verbatim>\<open>_run_once\<close> of the asyncio library
  runs user code, so it is a parameter \<open>run_once\<close>; so is \<open>invoke\<close>, what calling
  a stored callback with its arguments does. The body of the \<^verbatim>\<open>try\<close> is in two
  parts: the pass and the re-arm (up to \<^verbatim>\<open>call_soon\<close>), then the flush of the
  inner-loop request.
\<close>

definition advance_and_rearm :: "(state \<Rightarrow> outcome) \<Rightarrow> state \<Rightarrow> outcome" where
  "advance_and_rearm run_once s =
     (case app s of
        Missing \<Rightarrow> Raise (AttributeError ''app'') s
      | Present a \<Rightarrow>
          and_then (if is_exiting a then stop s else run_once s) (\<lambda>s.
          and_then (Normal (enqueue_tick s)) (\<lambda>s.
          call_soon LoopSelfReading s)))"

definition flush_inner_loop ::
  "(callable \<Rightarrow> pyobj list \<Rightarrow> state \<Rightarrow> outcome) \<Rightarrow> state \<Rightarrow> outcome" where
  "flush_inner_loop invoke s =
     (case inner_loop s of
        Missing \<Rightarrow> Raise (AttributeError ''_inner_loop'') s
      | Present None \<Rightarrow> Normal s
      | Present (Some (callback, args)) \<Rightarrow> invoke callback args (s\<lparr>inner_loop := Present None\<rparr>))"

definition run_once_body ::
  "(state \<Rightarrow> outcome) \<Rightarrow> (callable \<Rightarrow> pyobj list \<Rightarrow> state \<Rightarrow> outcome) \<Rightarrow> state \<Rightarrow> outcome" where
  "run_once_body run_once invoke s =
     and_then (advance_and_rearm run_once s) (flush_inner_loop invoke)"

definition run_once_recurring ::
  "(state \<Rightarrow> outcome) \<Rightarrow> (callable \<Rightarrow> pyobj list \<Rightarrow> state \<Rightarrow> outcome) \<Rightarrow> state \<Rightarrow> outcome" where
  "run_once_recurring run_once invoke s =
     try_except (run_once_body run_once invoke s) BaseException_class print_exc"

text \<open>
  \<^verbatim>\<open>run_forever\<close>, on an interpreter before 3.13. \<open>run_forever_setup\<close> is
  everything before \<^verbatim>\<open>WinForms.Application.Run\<close>; the host's blocking run is the
  parameter \<open>application_run\<close>.
\<close>

definition already_running_error :: exn where
  "already_running_error = RuntimeError ''This event loop is already running''"

definition nested_loop_error :: exn where
  "nested_loop_error = RuntimeError ''Cannot run the event loop while another loop is running''"

definition run_forever_setup :: "app \<Rightarrow> state \<Rightarrow> outcome" where
  "run_forever_setup a s =
     and_then (call_soon LoopSelfReading s) (\<lambda>s.
     and_then (Normal (s\<lparr>app := Present a\<rparr>)) (\<lambda>s.
     and_then (check_closed s) (\<lambda>s.
     if is_running s then Raise already_running_error s
     else case running_loop s of
       Some l \<Rightarrow> Raise nested_loop_error s
     | None \<Rightarrow>
         (let s = set_coroutine_origin_tracking (debug s) s;
              s = s\<lparr>thread_id := Some (current_thread s)\<rparr>;
              s = s\<lparr>old_agen_hooks := Present (asyncgen_hooks s)\<rparr>;
              s = s\<lparr>asyncgen_hooks := (FirstiterHook Self, FinalizerHook Self)\<rparr>;
              s = s\<lparr>running_loop := Some Self\<rparr>;
              s = s\<lparr>application_exit := application_exit s @ [WeakrefCallable Self]\<rparr>;
              s = enqueue_tick s;
              s = s\<lparr>inner_loop := Present None\<rparr>
          in Normal s))))"

definition run_forever :: "(nat \<Rightarrow> state \<Rightarrow> outcome) \<Rightarrow> app \<Rightarrow> state \<Rightarrow> outcome" where
  "run_forever application_run a s =
     and_then (run_forever_setup a s) (application_run (app_context a))"

subsection \<open>Concrete loops and collaborators\<close>

text \<open>A loop as its constructor leaves it, on thread 1, with no hooks installed.\<close>

definition new_loop :: state where
  "new_loop = \<lparr>closed = False, stopping = False, thread_id = None, debug = False,
     ready = [], coroutine_origin_tracking_enabled = False,
     app = Missing, old_agen_hooks = Missing, task = Missing, inner_loop = Missing,
     running_loop = None, asyncgen_hooks = (ForeignHook 7, NoHook), current_thread = 1,
     stderr = [], delayed = [], application_exit = []\<rparr>"

definition live_app :: app where
  "live_app = \<lparr>is_exiting = False, app_context = 0\<rparr>"

definition exiting_app :: app where
  "exiting_app = \<lparr>is_exiting = True, app_context = 0\<rparr>"

text \<open>The loop once \<^verbatim>\<open>run_forever\<close> has handed control to the host.\<close>

definition started_loop :: state where
  "started_loop = final (run_forever_setup live_app new_loop)"

text \<open>A scheduler pass with nothing to do, one that fails, and one that is interrupted.\<close>

definition idle_pass :: "state \<Rightarrow> outcome" where
  "idle_pass s = Normal s"

definition failing_pass :: "state \<Rightarrow> outcome" where
  "failing_pass s = Raise (OtherException ''task failed'') s"

definition interrupted_pass :: "state \<Rightarrow> outcome" where
  "interrupted_pass s = Raise KeyboardInterrupt s"

text \<open>Callbacks that do nothing, and a host loop that returns at once.\<close>

definition no_op :: "callable \<Rightarrow> pyobj list \<Rightarrow> state \<Rightarrow> outcome" where
  "no_op callback args s = Normal s"

definition host_returns :: "nat \<Rightarrow> state \<Rightarrow> outcome" where
  "host_returns ctx s = Normal s"

text \<open>The started loop when its first tick fires: the host has taken the delayed task.\<close>

definition ticking_loop :: state where
  "ticking_loop = started_loop\<lparr>delayed := []\<rparr>"

text \<open>A task has asked for a dialog: an inner-loop request is stored.\<close>

definition dialog_pending :: state where
  "dialog_pending = ticking_loop\<lparr>inner_loop := Present (Some (UserCallable 1, [PyInt 2]))\<rparr>"

text \<open>That loop after an idle pass, the re-arm and \<^verbatim>\<open>call_soon\<close>.\<close>

definition rearmed_pending :: state where
  "rearmed_pending = (enqueue_tick dialog_pending)\<lparr>ready := ready dialog_pending @ [LoopSelfReading]\<rparr>"

definition never_called :: "callable \<Rightarrow> pyobj list \<Rightarrow> state \<Rightarrow> outcome" where
  "never_called callback args s = Raise AssertionError s"

text \<open>The application has begun to exit.\<close>

definition exiting_loop :: state where
  "exiting_loop = ticking_loop\<lparr>app := Present exiting_app\<rparr>"

text \<open>The started loop after the exit handler has run.\<close>

definition exited_loop :: state where
  "exited_loop = final (winforms_application_exit started_loop)"

text \<open>
  A next tick is armed: the loop holds the tick action and the host's most recent
  delayed task is that action, due in 5 ms.
\<close>

definition tick_armed :: "state \<Rightarrow> bool" where
  "tick_armed s = (task s = Present TickAction \<and> delayed s \<noteq> [] \<and> last (delayed s) = (5, TickAction))"


section \<open>Properties\<close>

subsection \<open>Auxiliary facts\<close>

lemma started_loop_eq:
  "started_loop = new_loop\<lparr>ready := [LoopSelfReading], app := Present live_app,
     thread_id := Some 1, old_agen_hooks := Present (ForeignHook 7, NoHook),
     asyncgen_hooks := (FirstiterHook Self, FinalizerHook Self), running_loop := Some Self,
     application_exit := [WeakrefCallable Self], task := Present TickAction,
     delayed := [(5, TickAction)], inner_loop := Present None\<rparr>"
  by (simp add: started_loop_def run_forever_setup_def call_soon_def check_closed_def
      is_running_def set_coroutine_origin_tracking_def enqueue_tick_def new_loop_def Let_def)

lemma ticking_loop_simps:
  "app ticking_loop = Present live_app" "closed ticking_loop = False"
  "debug ticking_loop = False" "inner_loop ticking_loop = Present None"
  "delayed ticking_loop = []" "ready ticking_loop = [LoopSelfReading]"
  "stderr ticking_loop = []"
  by (simp_all add: ticking_loop_def started_loop_eq new_loop_def)

lemma dialog_pending_simps:
  "app dialog_pending = Present live_app" "closed dialog_pending = False"
  "debug dialog_pending = False"
  "inner_loop dialog_pending = Present (Some (UserCallable 1, [PyInt 2]))"
  "delayed dialog_pending = []" "ready dialog_pending = [LoopSelfReading]"
  "stderr dialog_pending = []"
  by (simp_all add: dialog_pending_def ticking_loop_simps)

lemma and_then_Normal:
  "and_then x f = Normal s' \<Longrightarrow> \<exists>s1. x = Normal s1 \<and> f s1 = Normal s'"
  by (cases x) simp_all

lemma call_soon_Normal:
  "call_soon cb s = Normal s' \<Longrightarrow> s' = s\<lparr>ready := ready s @ [cb]\<rparr>"
  by (auto simp: call_soon_def check_closed_def check_thread_def
      split: if_splits option.splits)

lemma advance_and_rearm_Normal:
  assumes "advance_and_rearm R s = Normal s2"
  shows "\<exists>s1. s2 = (enqueue_tick s1)\<lparr>ready := ready s1 @ [LoopSelfReading]\<rparr>"
proof (cases "app s")
  case Missing
  with assms show ?thesis by (simp add: advance_and_rearm_def)
next
  case (Present a)
  with assms obtain s1 where "call_soon LoopSelfReading (enqueue_tick s1) = Normal s2"
    by (auto simp: advance_and_rearm_def dest!: and_then_Normal)
  from call_soon_Normal [OF this] show ?thesis
    by (auto simp: enqueue_tick_def)
qed

lemma advance_and_rearm_armed:
  "advance_and_rearm R s = Normal s2 \<Longrightarrow> tick_armed s2"
  by (auto simp: tick_armed_def enqueue_tick_def dest!: advance_and_rearm_Normal)

lemma rearm_dialog_pending:
  "call_soon LoopSelfReading (enqueue_tick dialog_pending) = Normal rearmed_pending"
  by (simp add: call_soon_def check_closed_def enqueue_tick_def rearmed_pending_def
      dialog_pending_simps)

lemma advance_dialog_pending:
  "advance_and_rearm idle_pass dialog_pending = Normal rearmed_pending"
  by (simp add: advance_and_rearm_def idle_pass_def dialog_pending_simps live_app_def
      rearm_dialog_pending)

lemma rearmed_pending_simps:
  "inner_loop rearmed_pending = Present (Some (UserCallable 1, [PyInt 2]))"
  "delayed rearmed_pending = [(5, TickAction)]" "stderr rearmed_pending = []"
  by (simp_all add: rearmed_pending_def enqueue_tick_def dialog_pending_simps)

subsection \<open>Claims\<close>

text \<open>
  C1. The claim: when the application is exiting, \<^verbatim>\<open>run_once_recurring\<close> stops the
  scheduler and arms no further tick. The method's docstring says the same (the next
  iteration is enqueued "if we're not stopping"). The code calls \<^verbatim>\<open>stop\<close> and then
  falls through to \<^verbatim>\<open>enqueue_tick\<close> all the same: on a started loop whose application
  is exiting, whatever the scheduler pass and the callbacks are, the call sets the
  stopping flag and leaves a new delayed tick with the host.
\<close>

theorem exiting_tick_still_rearms:
  "run_once_recurring R I exiting_loop =
     Normal (exiting_loop\<lparr>stopping := True, task := Present TickAction,
       delayed := [(5, TickAction)], ready := [LoopSelfReading, LoopSelfReading]\<rparr>)"
  by (simp add: run_once_recurring_def run_once_body_def advance_and_rearm_def
      flush_inner_loop_def stop_def enqueue_tick_def call_soon_def check_closed_def
      exiting_loop_def ticking_loop_def started_loop_eq exiting_app_def new_loop_def)

text \<open>
  C2. The claim: a \<^verbatim>\<open>run_forever\<close> call that violates the precondition raises before
  any state is changed. That fails for a loop that is already running: the first two
  statements of \<^verbatim>\<open>run_forever\<close>, \<^verbatim>\<open>call_soon\<close> and the
  assignment of \<^verbatim>\<open>self.app\<close>, come before the checks, so the error leaves one more
  handle in the ready queue and another application stored.
\<close>

theorem run_forever_mutates_before_raising:
  "is_running started_loop \<and>
   run_forever host_returns exiting_app started_loop =
     Raise already_running_error
       (started_loop\<lparr>ready := [LoopSelfReading, LoopSelfReading], app := Present exiting_app\<rparr>) \<and>
   started_loop\<lparr>ready := [LoopSelfReading, LoopSelfReading], app := Present exiting_app\<rparr>
     \<noteq> started_loop"
proof -
  have "ready (started_loop\<lparr>ready := [LoopSelfReading, LoopSelfReading], app := Present exiting_app\<rparr>)
      \<noteq> ready started_loop"
    by (simp add: started_loop_eq)
  then have "started_loop\<lparr>ready := [LoopSelfReading, LoopSelfReading], app := Present exiting_app\<rparr>
     \<noteq> started_loop"
    by metis
  then show ?thesis
    by (simp add: started_loop_eq run_forever_def run_forever_setup_def call_soon_def
        check_closed_def is_running_def new_loop_def)
qed

text \<open>
  C2, amended. When the loop is closed, already running, or another loop is running on
  the thread, \<^verbatim>\<open>run_forever\<close> raises and never reaches the host. On a closed loop
  the error comes from \<^verbatim>\<open>call_soon\<close> and the state is untouched (so it is when, in
  debug mode, \<^verbatim>\<open>call_soon\<close> rejects a caller on another thread than the running
  loop's). Otherwise the error is the already-running or the nested-loop one, and the
  state differs from the one before the call in exactly two places: the self-reading
  callback has been appended to the ready queue and the application has been stored.
  Thread id, running loop, asyncgen hooks, delayed ticks, exit subscription and
  inner-loop request are as before.
\<close>

theorem run_forever_rejects:
  assumes "closed s \<or> is_running s \<or> running_loop s \<noteq> None"
  shows "run_forever application_run a s =
     (if closed s then Raise closed_error s
      else if debug s \<and> is_running s \<and> thread_id s \<noteq> Some (current_thread s)
        then Raise thread_error s
      else if is_running s
        then Raise already_running_error
               (s\<lparr>ready := ready s @ [LoopSelfReading], app := Present a\<rparr>)
      else Raise nested_loop_error
               (s\<lparr>ready := ready s @ [LoopSelfReading], app := Present a\<rparr>))"
  using assms
  by (auto simp: run_forever_def run_forever_setup_def call_soon_def check_closed_def
      check_thread_def is_running_def split: option.splits)

theorem run_forever_rejects_witness:
  "(closed started_loop \<or> is_running started_loop \<or> running_loop started_loop \<noteq> None) \<and>
   run_forever host_returns exiting_app started_loop =
     Raise already_running_error
       (started_loop\<lparr>ready := ready started_loop @ [LoopSelfReading], app := Present exiting_app\<rparr>) \<and>
   (closed (new_loop\<lparr>closed := True\<rparr>) \<or> is_running (new_loop\<lparr>closed := True\<rparr>)
      \<or> running_loop (new_loop\<lparr>closed := True\<rparr>) \<noteq> None) \<and>
   run_forever host_returns live_app (new_loop\<lparr>closed := True\<rparr>) =
     Raise closed_error (new_loop\<lparr>closed := True\<rparr>)"
proof -
  have h1: "closed started_loop \<or> is_running started_loop \<or> running_loop started_loop \<noteq> None"
    by (simp add: started_loop_eq is_running_def)
  have h2: "closed (new_loop\<lparr>closed := True\<rparr>) \<or> is_running (new_loop\<lparr>closed := True\<rparr>)
      \<or> running_loop (new_loop\<lparr>closed := True\<rparr>) \<noteq> None"
    by simp
  have f: "\<not> closed started_loop" "\<not> debug started_loop" "is_running started_loop"
    by (simp_all add: started_loop_eq is_running_def new_loop_def)
  from run_forever_rejects [OF h1, of host_returns exiting_app]
    run_forever_rejects [OF h2, of host_returns live_app] h1 h2 f
  show ?thesis by simp
qed

text \<open>
  C3. The inner-loop callback only ever runs with the next tick armed. First part:
  replacing the callback, on every state where no tick is armed, by anything else does
  not change what \<^verbatim>\<open>run_once_recurring\<close> does, so it is never called on such a
  state. Second part, the order of the steps: when the application is not exiting, the
  scheduler pass returns \<open>s1\<close> and \<^verbatim>\<open>call_soon\<close> succeeds, the stored callback is
  applied to a state in which \<^verbatim>\<open>enqueue_tick\<close> has already added its delayed tick
  to those of \<open>s1\<close>.
\<close>

theorem inner_callback_runs_after_rearm:
  "run_once_recurring R (\<lambda>callback args s'. if tick_armed s' then I callback args s'
       else J callback args s') s = run_once_recurring R I s \<and>
   (app s = Present a \<and> \<not> is_exiting a \<and> R s = Normal s1 \<and>
     call_soon LoopSelfReading (enqueue_tick s1) = Normal s2 \<and>
     inner_loop s2 = Present (Some (cb, xs)) \<longrightarrow>
    run_once_body R I s = I cb xs (s2\<lparr>inner_loop := Present None\<rparr>) \<and>
    task (s2\<lparr>inner_loop := Present None\<rparr>) = Present TickAction \<and>
    delayed (s2\<lparr>inner_loop := Present None\<rparr>) = delayed s1 @ [(5, TickAction)])"
proof -
  have guard: "flush_inner_loop (\<lambda>callback args s'. if tick_armed s' then I callback args s'
       else J callback args s') s2 = flush_inner_loop I s2" if "tick_armed s2" for s2
    using that by (auto simp: flush_inner_loop_def tick_armed_def split: attr.splits option.splits)
  have body: "run_once_body R (\<lambda>callback args s'. if tick_armed s' then I callback args s'
       else J callback args s') s = run_once_body R I s"
  proof (cases "advance_and_rearm R s")
    case (Normal s2)
    then show ?thesis
      by (simp add: run_once_body_def guard [OF advance_and_rearm_armed [OF Normal]])
  next
    case (Raise e s2)
    then show ?thesis by (simp add: run_once_body_def)
  qed
  have order: "run_once_body R I s = I cb xs (s2\<lparr>inner_loop := Present None\<rparr>) \<and>
    task (s2\<lparr>inner_loop := Present None\<rparr>) = Present TickAction \<and>
    delayed (s2\<lparr>inner_loop := Present None\<rparr>) = delayed s1 @ [(5, TickAction)]"
    if "app s = Present a" "\<not> is_exiting a" "R s = Normal s1"
      "call_soon LoopSelfReading (enqueue_tick s1) = Normal s2"
      "inner_loop s2 = Present (Some (cb, xs))"
  proof -
    from that have "advance_and_rearm R s = Normal s2"
      by (simp add: advance_and_rearm_def)
    with that(5) have "run_once_body R I s = I cb xs (s2\<lparr>inner_loop := Present None\<rparr>)"
      by (simp add: run_once_body_def flush_inner_loop_def)
    moreover from call_soon_Normal [OF that(4)] have "task s2 = Present TickAction"
      "delayed s2 = delayed s1 @ [(5, TickAction)]"
      by (simp_all add: enqueue_tick_def)
    ultimately show ?thesis by simp
  qed
  from body order show ?thesis by (simp add: run_once_recurring_def)
qed

theorem inner_callback_runs_after_rearm_witness:
  "run_once_recurring idle_pass (\<lambda>callback args s'. if tick_armed s' then no_op callback args s'
       else never_called callback args s') dialog_pending
     = run_once_recurring idle_pass no_op dialog_pending \<and>
   app dialog_pending = Present live_app \<and> \<not> is_exiting live_app \<and>
   idle_pass dialog_pending = Normal dialog_pending \<and>
   call_soon LoopSelfReading (enqueue_tick dialog_pending) = Normal rearmed_pending \<and>
   inner_loop rearmed_pending = Present (Some (UserCallable 1, [PyInt 2])) \<and>
   run_once_body idle_pass no_op dialog_pending =
     no_op (UserCallable 1) [PyInt 2] (rearmed_pending\<lparr>inner_loop := Present None\<rparr>) \<and>
   delayed (rearmed_pending\<lparr>inner_loop := Present None\<rparr>) = [(5, TickAction)]"
  using inner_callback_runs_after_rearm [of idle_pass no_op never_called dialog_pending
      live_app dialog_pending rearmed_pending "UserCallable 1" "[PyInt 2]"]
  by (simp add: dialog_pending_simps rearmed_pending_simps rearm_dialog_pending
      idle_pass_def live_app_def)

text \<open>
  C4. The claim: a tick whose scheduler pass raises still arms the next tick. In the code
  \<^verbatim>\<open>enqueue_tick\<close> follows \<^verbatim>\<open>_run_once\<close> inside the same \<^verbatim>\<open>try\<close>, so an
  exception of the pass skips it: on a started loop whose tick has fired, a failing
  pass is printed and swallowed, and afterwards the host holds no delayed tick.
\<close>

theorem failing_pass_ends_tick_chain:
  "run_once_recurring failing_pass I ticking_loop =
     Normal (ticking_loop\<lparr>stderr := [OtherException ''task failed'']\<rparr>) \<and>
   delayed (ticking_loop\<lparr>stderr := [OtherException ''task failed'']\<rparr>) = []"
  by (simp add: run_once_recurring_def run_once_body_def advance_and_rearm_def
      failing_pass_def print_exc_def
      ticking_loop_def started_loop_eq live_app_def new_loop_def)

text \<open>
  C5. \<^verbatim>\<open>run_once_recurring\<close> always returns normally, whatever the scheduler pass and
  the callbacks do, and an exception raised by its body has been appended to what is
  printed on standard error.
\<close>

theorem run_once_recurring_never_raises:
  "raised (run_once_recurring R I s) = None \<and>
   stderr (final (run_once_recurring R I s)) =
     stderr (final (run_once_body R I s)) @
       (case raised (run_once_body R I s) of None \<Rightarrow> [] | Some e \<Rightarrow> [e])"
  by (cases "run_once_body R I s") (simp_all add: run_once_recurring_def print_exc_def)

text \<open>
  C6. \<^verbatim>\<open>start_inner_loop\<close> with a request already stored fails the assertion and
  leaves the state as it was; with the slot empty it stores the pair and returns, the
  rest of the state unchanged (no callback is called: the method has none to run).
\<close>

theorem start_inner_loop_contract:
  "(inner_loop s = Present (Some r) \<longrightarrow> start_inner_loop callback args s = Raise AssertionError s) \<and>
   (inner_loop s = Present None \<longrightarrow>
      start_inner_loop callback args s = 
        Normal (s\<lparr>inner_loop := Present (Some (callback, args))\<rparr>))"
  by (simp add: start_inner_loop_def)

theorem start_inner_loop_contract_witness:
  "inner_loop ticking_loop = Present None \<and>
   start_inner_loop (UserCallable 1) [PyInt 2] ticking_loop = Normal dialog_pending \<and>
   inner_loop dialog_pending = Present (Some (UserCallable 1, [PyInt 2])) \<and>
   start_inner_loop (UserCallable 3) [] dialog_pending = Raise AssertionError dialog_pending"
  using start_inner_loop_contract [of ticking_loop "(UserCallable 1, [PyInt 2])" "UserCallable 1" "[PyInt 2]"]
    start_inner_loop_contract [of dialog_pending "(UserCallable 1, [PyInt 2])" "UserCallable 3" "[]"]
  by (simp add: dialog_pending_def ticking_loop_def started_loop_eq)

text \<open>
  C7. When the startup from \<open>s\<close> succeeds, \<^verbatim>\<open>run_forever\<close> enters the host loop
  on the state \<open>s1\<close> it has set up, and the exit handler, run on any later
  state \<open>s2\<close> that still holds the hooks saved at startup, returns normally with the
  asyncgen hooks of \<open>s\<close> restored, the thread id and the running loop cleared, and
  the loop neither running nor stopping.
\<close>

theorem exit_restores_startup_state:
  assumes "run_forever_setup a s = Normal s1"
    and "old_agen_hooks s2 = old_agen_hooks s1"
  shows "run_forever application_run a s = application_run (app_context a) s1 \<and>
    raised (winforms_application_exit s2) = None \<and>
    asyncgen_hooks (final (winforms_application_exit s2)) = asyncgen_hooks s \<and>
    thread_id (final (winforms_application_exit s2)) = None \<and>
    running_loop (final (winforms_application_exit s2)) = None \<and>
    \<not> is_running (final (winforms_application_exit s2)) \<and>
    \<not> stopping (final (winforms_application_exit s2))"
proof -
  from assms(1) have "old_agen_hooks s1 = Present (asyncgen_hooks s)"
    by (auto simp: run_forever_setup_def call_soon_def check_closed_def check_thread_def
        set_coroutine_origin_tracking_def enqueue_tick_def Let_def
        split: if_splits option.splits)
  with assms show ?thesis
    by (simp add: winforms_application_exit_def set_coroutine_origin_tracking_def
        is_running_def run_forever_def Let_def)
qed

theorem exit_restores_startup_state_witness:
  "run_forever_setup live_app new_loop = Normal started_loop \<and>
   run_forever host_returns live_app new_loop = Normal started_loop \<and>
   old_agen_hooks (started_loop\<lparr>stopping := True\<rparr>) = old_agen_hooks started_loop \<and>
   raised (winforms_application_exit (started_loop\<lparr>stopping := True\<rparr>)) = None \<and>
   asyncgen_hooks (final (winforms_application_exit (started_loop\<lparr>stopping := True\<rparr>))) =
     (ForeignHook 7, NoHook) \<and>
   thread_id (final (winforms_application_exit (started_loop\<lparr>stopping := True\<rparr>))) = None \<and>
   running_loop (final (winforms_application_exit (started_loop\<lparr>stopping := True\<rparr>))) = None \<and>
   \<not> is_running (final (winforms_application_exit (started_loop\<lparr>stopping := True\<rparr>))) \<and>
   \<not> stopping (final (winforms_application_exit (started_loop\<lparr>stopping := True\<rparr>)))"
proof -
  have h1: "run_forever_setup live_app new_loop = Normal started_loop"
    by (simp add: started_loop_eq)
      (simp add: run_forever_setup_def call_soon_def check_closed_def
        is_running_def set_coroutine_origin_tracking_def enqueue_tick_def new_loop_def Let_def)
  have h2: "old_agen_hooks (started_loop\<lparr>stopping := True\<rparr>) = old_agen_hooks started_loop"
    by simp
  have h3: "asyncgen_hooks new_loop = (ForeignHook 7, NoHook)"
    by (simp add: new_loop_def)
  from exit_restores_startup_state [OF h1 h2, of host_returns] h1 h2 h3 show ?thesis
    by (simp add: host_returns_def)
qed

text \<open>
  C8. The exit handler is idempotent: on the state it returned, it returns that same
  state.
\<close>

theorem winforms_application_exit_idempotent:
  assumes "winforms_application_exit s = Normal s'"
  shows "winforms_application_exit s' = Normal s'"
  using assms
  by (auto simp: winforms_application_exit_def set_coroutine_origin_tracking_def Let_def
      split: attr.splits)

theorem winforms_application_exit_idempotent_witness:
  "winforms_application_exit started_loop = Normal exited_loop \<and>
   winforms_application_exit exited_loop = Normal exited_loop"
proof -
  have h: "winforms_application_exit started_loop = Normal exited_loop"
    by (simp add: exited_loop_def started_loop_eq winforms_application_exit_def
        set_coroutine_origin_tracking_def Let_def)
  from winforms_application_exit_idempotent [OF h] h show ?thesis by simp
qed

text \<open>
  C9. When the tick reaches the flush with a request stored, the callback is applied to
  a state whose request slot is already empty; so a callback that itself calls
  \<^verbatim>\<open>start_inner_loop\<close> passes the assertion, and the tick returns with exactly
  that new request stored and nothing printed. The slot is an optional pair, so it
  never holds more than one request.
\<close>

theorem flush_clears_request_before_callback:
  assumes "advance_and_rearm R s = Normal s2"
    and "inner_loop s2 = Present (Some (cb, xs))"
  shows "run_once_body R I s = I cb xs (s2\<lparr>inner_loop := Present None\<rparr>) \<and>
    inner_loop (s2\<lparr>inner_loop := Present None\<rparr>) = Present None \<and>
    run_once_recurring R (\<lambda>callback args. start_inner_loop cb' xs') s =
      Normal (s2\<lparr>inner_loop := Present (Some (cb', xs'))\<rparr>)"
  using assms
  by (simp add: run_once_recurring_def run_once_body_def flush_inner_loop_def
      start_inner_loop_def)

theorem flush_clears_request_before_callback_witness:
  "advance_and_rearm idle_pass dialog_pending = Normal rearmed_pending \<and>
   inner_loop rearmed_pending = Present (Some (UserCallable 1, [PyInt 2])) \<and>
   run_once_body idle_pass no_op dialog_pending =
     no_op (UserCallable 1) [PyInt 2] (rearmed_pending\<lparr>inner_loop := Present None\<rparr>) \<and>
   run_once_recurring idle_pass (\<lambda>callback args. start_inner_loop (UserCallable 4) []) dialog_pending =
     Normal (rearmed_pending\<lparr>inner_loop := Present (Some (UserCallable 4, []))\<rparr>)"
  using flush_clears_request_before_callback [OF advance_dialog_pending rearmed_pending_simps(1),
      of no_op "UserCallable 4" "[]"]
  by (simp add: advance_dialog_pending rearmed_pending_simps)

text \<open>
  C10. The handler of \<^verbatim>\<open>run_once_recurring\<close> is \<^verbatim>\<open>except BaseException\<close>: every
  exception the body raises is an instance of the caught class, is printed, and the
  call returns normally. The instance below is a \<^verbatim>\<open>KeyboardInterrupt\<close> out of the
  scheduler pass, which \<^verbatim>\<open>except Exception\<close> would let through.
\<close>

theorem run_once_recurring_catches_base_exception:
  assumes "run_once_body R I s = Raise e s1"
  shows "isinstance e BaseException_class \<and>
    run_once_recurring R I s = Normal (s1\<lparr>stderr := stderr s1 @ [e]\<rparr>)"
  using assms by (simp add: run_once_recurring_def print_exc_def)

theorem run_once_recurring_catches_base_exception_witness:
  "run_once_body interrupted_pass no_op ticking_loop = Raise KeyboardInterrupt ticking_loop \<and>
   \<not> isinstance KeyboardInterrupt Exception_class \<and>
   isinstance KeyboardInterrupt BaseException_class \<and>
   run_once_recurring interrupted_pass no_op ticking_loop =
     Normal (ticking_loop\<lparr>stderr := [KeyboardInterrupt]\<rparr>)"
proof -
  have h: "run_once_body interrupted_pass no_op ticking_loop = Raise KeyboardInterrupt ticking_loop"
    by (simp add: run_once_body_def advance_and_rearm_def interrupted_pass_def
        ticking_loop_simps live_app_def)
  from run_once_recurring_catches_base_exception [OF h] h show ?thesis
    by (simp add: ticking_loop_simps)
qed

end
